theory Spec2Isabelle
  imports Complex_Main
begin

section \<open>Dense matrices, keys and errors\<close>

text \<open>
  A variable identifier (\<open>Key\<close>) is an unsigned machine integer in the sources; no
  arithmetic is done on keys, so they are natural numbers here. Sizes (\<open>rows()\<close>,
  \<open>cols()\<close>, \<open>size()\<close>, \<open>dim()\<close>) are natural numbers; where the sources subtract from
  a size in the signed type \<open>DenseIndex\<close> the model computes in \<open>int\<close>.

  A dense matrix is kept column by column, as the matrix library of the sources does,
  together with its row count (a matrix may have rows and no column). The scalar type
  is a parameter: no claim depends on floating-point arithmetic.
\<close>

type_synonym Key = nat

record 'a Matrix =
  rows :: nat
  columns :: "'a list list"

definition cols :: "('a, 'm) Matrix_scheme \<Rightarrow> nat" where
  "cols M = length (columns M)"

type_synonym 'a Vector = "'a list"

text \<open>
  A shared pointer to a noise model is either null (\<open>None\<close>) or points to a model, of
  which the code under study reads the dimension only.
\<close>

type_synonym SharedDiagonal = "nat option"

text \<open>
  Every way in which the modelled code stops without a result. The first three are the
  exceptions thrown in \<^verbatim>\<open>JacobianFactor-inl.h\<close>; \<open>DimensionError\<close> and \<open>IndexError\<close>
  are the store's refusal of a size and its out-of-range block access; \<open>SizeMismatch\<close> is the matrix library's refusal to assign
  a matrix to a view of another shape and \<open>VectorOutOfRange\<close> an element access past
  the end of a \<^verbatim>\<open>std::vector\<close>; the next three belong to \<^verbatim>\<open>Marginals.cpp\<close>: an
  exception of a collaborator (with its message), the lookup of a key that the
  solution-point mapping does not hold, and the dereference of a null pointer;
  \<open>KeyNotFound\<close> is the query of a joint marginal for a key it does not hold.
\<close>

datatype error =
    InvalidNoiseModel nat nat
  | InvalidMatrixBlock nat nat
  | invalid_argument string
  | DimensionError
  | IndexError
  | SizeMismatch
  | VectorOutOfRange
  | Thrown string
  | ValuesKeyDoesNotExist Key
  | NullPointerDereference
  | KeyNotFound

section \<open>The block matrix store\<close>

text \<open>
  Modelled from the spec: the class \<^verbatim>\<open>VerticalBlockMatrix\<close>, whose header is not among
  the sources. Following sections 3 and 4.1 of the specification it is one matrix
  together with the cumulative column offsets of its blocks, derived once from the
  width sequence. \<open>Construct(widths, rowCount)\<close> takes signed sizes, fails with
  \<open>DimensionError\<close> if the row count is negative or any width is not positive, and
  otherwise allocates \<open>rowCount \<times> sum(widths)\<close> uninitialised coefficients (a
  coefficient that was never written is \<open>None\<close>). \<open>Block(i)\<close> is the view of the columns
  of block \<open>i\<close>, all rows, and fails with \<open>IndexError\<close> outside \<open>[0, blockCount)\<close>. A
  default-constructed store has no block and an empty matrix.
\<close>

record 'a VerticalBlockMatrix =
  matrix :: "'a option Matrix"
  variableColOffsets :: "nat list"

fun fillOffsets :: "nat \<Rightarrow> nat list \<Rightarrow> nat list" where
  "fillOffsets acc [] = [acc]"
| "fillOffsets acc (d # ds) = acc # fillOffsets (acc + d) ds"

definition VerticalBlockMatrix :: "int list \<Rightarrow> int \<Rightarrow> error + 'a VerticalBlockMatrix" where
  "VerticalBlockMatrix dimensions height =
     (if height < 0 \<or> list_ex (\<lambda>width. width \<le> 0) dimensions then Inl DimensionError
      else Inr \<lparr> matrix = \<lparr> rows = nat height,
                            columns = replicate (nat (sum_list dimensions))
                                        (replicate (nat height) None) \<rparr>,
                 variableColOffsets = fillOffsets 0 (map nat dimensions) \<rparr>)"

definition VerticalBlockMatrix_default :: "'a VerticalBlockMatrix" where
  "VerticalBlockMatrix_default =
     \<lparr> matrix = \<lparr> rows = 0, columns = [] \<rparr>, variableColOffsets = [0] \<rparr>"

definition nBlocks :: "'a VerticalBlockMatrix \<Rightarrow> int" where
  "nBlocks s = int (length (variableColOffsets s)) - 1"

definition store_rows :: "'a VerticalBlockMatrix \<Rightarrow> nat" where
  "store_rows s = rows (matrix s)"

definition blockStart :: "'a VerticalBlockMatrix \<Rightarrow> nat \<Rightarrow> nat" where
  "blockStart s i = variableColOffsets s ! i"

definition blockWidth :: "'a VerticalBlockMatrix \<Rightarrow> nat \<Rightarrow> nat" where
  "blockWidth s i = variableColOffsets s ! Suc i - variableColOffsets s ! i"

definition block :: "'a VerticalBlockMatrix \<Rightarrow> int \<Rightarrow> error + 'a option Matrix" where
  "block s i =
     (if 0 \<le> i \<and> i < nBlocks s
      then Inr \<lparr> rows = store_rows s,
                 columns = take (blockWidth s (nat i))
                             (drop (blockStart s (nat i)) (columns (matrix s))) \<rparr>
      else Inl IndexError)"

text \<open>
  The assignment \<^verbatim>\<open>Ab_(i) = M\<close> through the view of block \<open>i\<close>: the view has the
  shape of the block, and the matrix library copies only between equal shapes.
\<close>

definition assignBlock ::
  "'a VerticalBlockMatrix \<Rightarrow> int \<Rightarrow> 'a Matrix \<Rightarrow> error + 'a VerticalBlockMatrix" where
  "assignBlock s i M =
     (if \<not> (0 \<le> i \<and> i < nBlocks s) then Inl IndexError
      else if rows M \<noteq> store_rows s \<or> cols M \<noteq> blockWidth s (nat i) then Inl SizeMismatch
      else Inr (s \<lparr> matrix := (matrix s) \<lparr> columns :=
                  take (blockStart s (nat i)) (columns (matrix s))
                  @ map (map Some) (columns M)
                  @ drop (blockStart s (nat i) + blockWidth s (nat i)) (columns (matrix s)) \<rparr> \<rparr>))"

section \<open>The linear Gaussian factor\<close>

text \<open>
  The members \<^verbatim>\<open>keys_\<close> (of the base class), \<^verbatim>\<open>Ab_\<close> and \<^verbatim>\<open>model_\<close> of a
  \<^verbatim>\<open>JacobianFactor\<close>.
\<close>

record 'a JacobianFactor =
  JF_keys :: "Key list"
  JF_Ab :: "'a VerticalBlockMatrix"
  JF_model :: SharedDiagonal

text \<open>
  The test \<^verbatim>\<open>model && (DenseIndex)model->dim() != n\<close> together with the exception it
  guards, \<^verbatim>\<open>InvalidNoiseModel(n, model->dim())\<close>.
\<close>

definition checkNoiseModel :: "SharedDiagonal \<Rightarrow> nat \<Rightarrow> error option" where
  "checkNoiseModel model n =
     (case model of
        None \<Rightarrow> None
      | Some d \<Rightarrow> if d \<noteq> n then Some (InvalidNoiseModel n d) else None)"

definition keys_blocks_message :: string where
  "keys_blocks_message =
     ''Error in JacobianFactor constructor input.  Number of provided keys plus\<newline>one for the RHS vector must equal the number of provided matrix blocks.''"

definition last_block_message :: string where
  "last_block_message =
     ''Error in JacobianFactor constructor input.  The last provided matrix block\<newline>must be the RHS vector, but the last provided block had more than one column.''"

text \<open>
  \<^verbatim>\<open>JacobianFactor(keys, augmentedMatrix, model)\<close>, lines 37-60: the members are
  initialised from the arguments, then the three checks run in the order of the source.
\<close>

definition JacobianFactor_augmented ::
  "Key list \<Rightarrow> 'a VerticalBlockMatrix \<Rightarrow> SharedDiagonal \<Rightarrow> error + 'a JacobianFactor" where
  "JacobianFactor_augmented keys augmentedMatrix model =
     (case checkNoiseModel model (store_rows augmentedMatrix) of
        Some e \<Rightarrow> Inl e
      | None \<Rightarrow>
          if int (length keys) \<noteq> nBlocks augmentedMatrix - 1
          then Inl (invalid_argument keys_blocks_message)
          else (case block augmentedMatrix (nBlocks augmentedMatrix - 1) of
                  Inl e \<Rightarrow> Inl e
                | Inr lastBlock \<Rightarrow>
                    if cols lastBlock \<noteq> 1
                    then Inl (invalid_argument last_block_message)
                    else Inr \<lparr> JF_keys = keys, JF_Ab = augmentedMatrix, JF_model = model \<rparr>))"

text \<open>
  \<^verbatim>\<open>Base::keys_.resize(n)\<close>: a longer vector is cut, a shorter one is filled with
  value-initialised keys.
\<close>

definition resize :: "Key list \<Rightarrow> nat \<Rightarrow> Key list" where
  "resize ks n = take n ks @ replicate (n - length ks) 0"

text \<open>
  The loop of \<^verbatim>\<open>fillTerms\<close>, lines 91-101, with the block index \<open>i\<close> it increments:
  the row check, then the key, then the block.
\<close>

fun fillTerms_loop ::
  "(Key \<times> 'a Matrix) list \<Rightarrow> nat \<Rightarrow> int \<Rightarrow> 'a JacobianFactor \<Rightarrow> error + 'a JacobianFactor" where
  "fillTerms_loop [] bsize i this = Inr this"
| "fillTerms_loop (t # rest) bsize i this =
     (if rows (snd t) \<noteq> bsize then Inl (InvalidMatrixBlock bsize (rows (snd t)))
      else if \<not> (0 \<le> i \<and> i < int (length (JF_keys this))) then Inl VectorOutOfRange
      else (case assignBlock (JF_Ab this) i (snd t) of
              Inl e \<Rightarrow> Inl e
            | Inr Ab' \<Rightarrow>
                fillTerms_loop rest bsize (i + 1)
                  (this \<lparr> JF_keys := (JF_keys this)[nat i := fst t], JF_Ab := Ab' \<rparr>)))"

text \<open>
  \<^verbatim>\<open>getb() = b\<close>: the right-hand side is the block after the last key's block.
\<close>

definition assign_b :: "'a JacobianFactor \<Rightarrow> 'a Vector \<Rightarrow> error + 'a JacobianFactor" where
  "assign_b this b =
     (case assignBlock (JF_Ab this) (int (length (JF_keys this))) \<lparr> rows = length b, columns = [b] \<rparr> of
        Inl e \<Rightarrow> Inl e
      | Inr Ab' \<Rightarrow> Inr (this \<lparr> JF_Ab := Ab' \<rparr>))"

text \<open>
  \<^verbatim>\<open>fillTerms\<close>, lines 70-108, on the factor \<open>this\<close> under construction. The store
  is constructed (line 86) from the column counts of the matrices followed by 1, and
  from the length of \<open>b\<close>; a failure of its constructor leaves \<^verbatim>\<open>fillTerms\<close>.
\<close>

definition fillTerms ::
  "'a JacobianFactor \<Rightarrow> (Key \<times> 'a Matrix) list \<Rightarrow> 'a Vector \<Rightarrow> SharedDiagonal
     \<Rightarrow> error + 'a JacobianFactor" where
  "fillTerms this terms b noiseModel =
     (case checkNoiseModel noiseModel (length b) of
        Some e \<Rightarrow> Inl e
      | None \<Rightarrow>
          (case VerticalBlockMatrix (map (\<lambda>p. int (cols (snd p))) terms @ [1]) (int (length b)) of
             Inl e \<Rightarrow> Inl e
           | Inr Ab \<Rightarrow>
               (case fillTerms_loop terms (length b) 0
                       (this \<lparr> JF_keys := resize (JF_keys this) (length terms), JF_Ab := Ab \<rparr>) of
                  Inl e \<Rightarrow> Inl e
                | Inr this' \<Rightarrow>
                    (case assign_b this' b of
                       Inl e \<Rightarrow> Inl e
                     | Inr this'' \<Rightarrow> Inr (this'' \<lparr> JF_model := noiseModel \<rparr>)))))"

text \<open>
  \<^verbatim>\<open>JacobianFactor(terms, b, model)\<close>, lines 30-34: \<^verbatim>\<open>fillTerms\<close> on a factor whose
  members are default-constructed.
\<close>

definition JacobianFactor_empty :: "'a JacobianFactor" where
  "JacobianFactor_empty = \<lparr> JF_keys = [], JF_Ab = VerticalBlockMatrix_default, JF_model = None \<rparr>"

definition JacobianFactor_terms ::
  "(Key \<times> 'a Matrix) list \<Rightarrow> 'a Vector \<Rightarrow> SharedDiagonal \<Rightarrow> error + 'a JacobianFactor" where
  "JacobianFactor_terms terms b model = fillTerms JacobianFactor_empty terms b model"

section \<open>The marginal query engine\<close>

text \<open>
  The solution-point mapping \<^verbatim>\<open>values_\<close> is read by \<^verbatim>\<open>values_.at(key).dim()\<close> only:
  it is the map from the keys it holds to the dimension of the value stored there.
\<close>

type_synonym Values = "Key \<rightharpoonup> nat"

text \<open>
  Modelled from the spec: the enumeration \<^verbatim>\<open>Factorization\<close> of \<^verbatim>\<open>Marginals.h\<close>, which is
  not among the sources. It has exactly two recognised values; as an enumeration
  object holds an integer, the member \<^verbatim>\<open>factorization_\<close> is an integer here, so that
  the paths of the code that neither comparison selects can be followed.
\<close>

type_synonym Factorization = int

definition CHOLESKY :: Factorization where
  "CHOLESKY = 0"

definition QR :: Factorization where
  "QR = 1"

text \<open>The two elimination functions that the code passes to its collaborators.\<close>

datatype Eliminate = EliminatePreferCholesky | EliminateQR

text \<open>
  The collaborators of \<^verbatim>\<open>Marginals.cpp\<close> are outside the sources and are parameters
  of the model: linearisation, elimination, the queries of the Bayes tree, the
  conversion of a Bayes tree to a factor graph, the information matrices of a factor
  and of a factor graph, the matrix inverse, and the default-constructed Bayes tree
  and factor graph. The nonlinear graph \<open>'n\<close>, the linear graph \<open>'g\<close>, the Bayes tree
  \<open>'t\<close> and the factor \<open>'f\<close> are opaque. A collaborator that can throw returns
  either the message of its exception or its result; the information matrices and the
  inverse are returned by value by functions that do not throw.
\<close>

record ('a, 'n, 'g, 't, 'f) Collaborators =
  linearize :: "'n \<Rightarrow> Values \<Rightarrow> string + 'g"
  eliminateMultifrontal :: "'g \<Rightarrow> Eliminate \<Rightarrow> string + 't"
  marginalFactor :: "'t \<Rightarrow> Key \<Rightarrow> Eliminate \<Rightarrow> string + 'f"
  information :: "'f \<Rightarrow> 'a Matrix"
  joint :: "'t \<Rightarrow> Key \<Rightarrow> Key \<Rightarrow> Eliminate \<Rightarrow> string + 'g"
  marginalMultifrontalBayesTree :: "'g \<Rightarrow> Key list \<Rightarrow> Eliminate \<Rightarrow> string + 't"
  asFactorGraph :: "'t \<Rightarrow> 'g"
  augmentedHessian :: "'g \<Rightarrow> 'a Matrix"
  inverse_matrix :: "'a Matrix \<Rightarrow> 'a Matrix"
  emptyBayesTree :: "'t"
  emptyFactorGraph :: "'g"

definition call :: "string + 'x \<Rightarrow> error + 'x" where
  "call r = (case r of Inl message \<Rightarrow> Inl (Thrown message) | Inr x \<Rightarrow> Inr x)"

text \<open>The members \<^verbatim>\<open>graph_\<close>, \<^verbatim>\<open>values_\<close>, \<^verbatim>\<open>factorization_\<close> and \<^verbatim>\<open>bayesTree_\<close>.\<close>

record ('g, 't) Marginals =
  M_graph :: 'g
  M_values :: Values
  M_factorization :: Factorization
  M_bayesTree :: 't

text \<open>
  The constructor, lines 29-45. The members are default-constructed before the body
  runs, and the Bayes tree is assigned in the two branches only.
\<close>

definition Marginals ::
  "('a, 'n, 'g, 't, 'f) Collaborators \<Rightarrow> 'n \<Rightarrow> Values \<Rightarrow> Factorization
     \<Rightarrow> error + ('g, 't) Marginals" where
  "Marginals c graph solution factorization =
     (case call (linearize c graph solution) of
        Inl e \<Rightarrow> Inl e
      | Inr g \<Rightarrow>
          (let this = \<lparr> M_graph = g, M_values = solution,
                         M_factorization = factorization, M_bayesTree = emptyBayesTree c \<rparr>
           in if factorization = CHOLESKY
              then (case call (eliminateMultifrontal c g EliminatePreferCholesky) of
                      Inl e \<Rightarrow> Inl e
                    | Inr bt \<Rightarrow> Inr (this \<lparr> M_bayesTree := bt \<rparr>))
              else if factorization = QR
              then (case call (eliminateMultifrontal c g EliminateQR) of
                      Inl e \<Rightarrow> Inl e
                    | Inr bt \<Rightarrow> Inr (this \<lparr> M_bayesTree := bt \<rparr>))
              else Inr this))"

text \<open>
  \<^verbatim>\<open>marginalInformation\<close>, lines 61-74. The pointer \<^verbatim>\<open>marginalFactor\<close> starts null
  (\<open>None\<close>), is assigned in the two branches only, and is dereferenced at the end.
\<close>

definition marginalFactor_pointer ::
  "('a, 'n, 'g, 't, 'f) Collaborators \<Rightarrow> ('g, 't) Marginals \<Rightarrow> Key \<Rightarrow> error + 'f option" where
  "marginalFactor_pointer c this variable =
     (if M_factorization this = CHOLESKY
      then (case call (marginalFactor c (M_bayesTree this) variable EliminatePreferCholesky) of
              Inl e \<Rightarrow> Inl e
            | Inr f \<Rightarrow> Inr (Some f))
      else if M_factorization this = QR
      then (case call (marginalFactor c (M_bayesTree this) variable EliminateQR) of
              Inl e \<Rightarrow> Inl e
            | Inr f \<Rightarrow> Inr (Some f))
      else Inr None)"

definition marginalInformation ::
  "('a, 'n, 'g, 't, 'f) Collaborators \<Rightarrow> ('g, 't) Marginals \<Rightarrow> Key \<Rightarrow> error + 'a Matrix" where
  "marginalInformation c this variable =
     (case marginalFactor_pointer c this variable of
        Inl e \<Rightarrow> Inl e
      | Inr None \<Rightarrow> Inl NullPointerDereference
      | Inr (Some f) \<Rightarrow> Inr (information c f))"

text \<open>\<^verbatim>\<open>marginalCovariance\<close>, lines 56-58.\<close>

definition marginalCovariance ::
  "('a, 'n, 'g, 't, 'f) Collaborators \<Rightarrow> ('g, 't) Marginals \<Rightarrow> Key \<Rightarrow> error + 'a Matrix" where
  "marginalCovariance c this variable =
     (case marginalInformation c this variable of
        Inl e \<Rightarrow> Inl e
      | Inr info \<Rightarrow> Inr (inverse_matrix c info))"

text \<open>
  Modelled from the spec: the class \<^verbatim>\<open>JointMarginal\<close> of \<^verbatim>\<open>Marginals.h\<close>, which is not
  among the sources: the queried keys in order, the parallel sequence of their
  dimensions and one matrix (section 3). The constructor stores its three arguments.
  \<open>At(keyA, keyB)\<close> is the sub-matrix of the rows of \<open>keyA\<close>'s position and the columns
  of \<open>keyB\<close>'s position, the ranges being found by summing the dimensions of the
  preceding variables; it fails with \<open>KeyNotFound\<close> when a key is absent (section 4.4).
\<close>

record 'a JointMarginal =
  JM_fullMatrix :: "'a Matrix"
  JM_dims :: "nat list"
  JM_keys :: "Key list"

definition JointMarginal :: "'a Matrix \<Rightarrow> nat list \<Rightarrow> Key list \<Rightarrow> 'a JointMarginal" where
  "JointMarginal fullMatrix dims keys =
     \<lparr> JM_fullMatrix = fullMatrix, JM_dims = dims, JM_keys = keys \<rparr>"

fun position :: "Key \<Rightarrow> Key list \<Rightarrow> nat option" where
  "position k [] = None"
| "position k (x # xs) =
     (if x = k then Some 0 else map_option Suc (position k xs))"

definition subMatrix :: "'a Matrix \<Rightarrow> nat \<Rightarrow> nat \<Rightarrow> nat \<Rightarrow> nat \<Rightarrow> 'a Matrix" where
  "subMatrix M startRow startCol blockRows blockCols =
     \<lparr> rows = blockRows,
       columns = map (\<lambda>column. take blockRows (drop startRow column))
                     (take blockCols (drop startCol (columns M))) \<rparr>"

definition At :: "'a JointMarginal \<Rightarrow> Key \<Rightarrow> Key \<Rightarrow> error + 'a Matrix" where
  "At jm keyA keyB =
     (case position keyA (JM_keys jm) of
        None \<Rightarrow> Inl KeyNotFound
      | Some i \<Rightarrow>
          (case position keyB (JM_keys jm) of
             None \<Rightarrow> Inl KeyNotFound
           | Some j \<Rightarrow>
               Inr (subMatrix (JM_fullMatrix jm)
                      (sum_list (take i (JM_dims jm))) (sum_list (take j (JM_dims jm)))
                      (JM_dims jm ! i) (JM_dims jm ! j))))"

text \<open>
  The loop of lines 112-116: the dimension of each requested key, in the order of the
  request; \<^verbatim>\<open>values_.at(key)\<close> throws at the first key that the mapping does not hold.
\<close>

fun dims_from_values :: "Values \<Rightarrow> Key list \<Rightarrow> error + nat list" where
  "dims_from_values vals [] = Inr []"
| "dims_from_values vals (key # rest) =
     (case vals key of
        None \<Rightarrow> Inl (ValuesKeyDoesNotExist key)
      | Some d \<Rightarrow>
          (case dims_from_values vals rest of
             Inl e \<Rightarrow> Inl e
           | Inr dims \<Rightarrow> Inr (d # dims)))"

text \<open>
  \<^verbatim>\<open>M.topLeftCorner(p, q)\<close> of the matrix library, with signed arguments: the corner
  must lie inside the matrix.
\<close>

definition topLeftCorner :: "'a Matrix \<Rightarrow> int \<Rightarrow> int \<Rightarrow> error + 'a Matrix" where
  "topLeftCorner M p q =
     (if 0 \<le> p \<and> p \<le> int (rows M) \<and> 0 \<le> q \<and> q \<le> int (cols M)
      then Inr (subMatrix M 0 0 (nat p) (nat q))
      else Inl IndexError)"

text \<open>
  Lines 97-109: the joint factor graph. \<^verbatim>\<open>jointFG\<close> is default-constructed and is
  assigned in the branches of the two recognised factorizations only.
\<close>

definition jointFG ::
  "('a, 'n, 'g, 't, 'f) Collaborators \<Rightarrow> ('g, 't) Marginals \<Rightarrow> Key list \<Rightarrow> error + 'g" where
  "jointFG c this variables =
     (if length variables = 2
      then (if M_factorization this = CHOLESKY
            then call (joint c (M_bayesTree this) (variables ! 0) (variables ! 1) EliminatePreferCholesky)
            else if M_factorization this = QR
            then call (joint c (M_bayesTree this) (variables ! 0) (variables ! 1) EliminateQR)
            else Inr (emptyFactorGraph c))
      else (if M_factorization this = CHOLESKY
            then (case call (marginalMultifrontalBayesTree c (M_graph this) variables EliminatePreferCholesky) of
                    Inl e \<Rightarrow> Inl e
                  | Inr bt \<Rightarrow> Inr (asFactorGraph c bt))
            else if M_factorization this = QR
            then (case call (marginalMultifrontalBayesTree c (M_graph this) variables EliminateQR) of
                    Inl e \<Rightarrow> Inl e
                  | Inr bt \<Rightarrow> Inr (asFactorGraph c bt))
            else Inr (emptyFactorGraph c)))"

text \<open>\<^verbatim>\<open>jointMarginalInformation\<close>, lines 84-124.\<close>

definition jointMarginalInformation ::
  "('a, 'n, 'g, 't, 'f) Collaborators \<Rightarrow> ('g, 't) Marginals \<Rightarrow> Key list
     \<Rightarrow> error + 'a JointMarginal" where
  "jointMarginalInformation c this variables =
     (if length variables = 1
      then (case marginalInformation c this (hd variables) of
              Inl e \<Rightarrow> Inl e
            | Inr info \<Rightarrow> Inr (JointMarginal info [rows info] variables))
      else (case jointFG c this variables of
              Inl e \<Rightarrow> Inl e
            | Inr fg \<Rightarrow>
                (case dims_from_values (M_values this) variables of
                   Inl e \<Rightarrow> Inl e
                 | Inr dims \<Rightarrow>
                     (let augmentedInfo = augmentedHessian c fg
                      in case topLeftCorner augmentedInfo
                                (int (rows augmentedInfo) - 1) (int (cols augmentedInfo) - 1) of
                           Inl e \<Rightarrow> Inl e
                         | Inr info \<Rightarrow> Inr (JointMarginal info dims variables)))))"

text \<open>
  \<^verbatim>\<open>jointMarginalCovariance\<close>, lines 77-81. The inverse of the matrix library has the
  shape of its operand, so the assignment through the view \<^verbatim>\<open>full()\<close> replaces the
  whole matrix.
\<close>

definition jointMarginalCovariance ::
  "('a, 'n, 'g, 't, 'f) Collaborators \<Rightarrow> ('g, 't) Marginals \<Rightarrow> Key list
     \<Rightarrow> error + 'a JointMarginal" where
  "jointMarginalCovariance c this variables =
     (case jointMarginalInformation c this variables of
        Inl e \<Rightarrow> Inl e
      | Inr info \<Rightarrow> Inr (info \<lparr> JM_fullMatrix := inverse_matrix c (JM_fullMatrix info) \<rparr>))"

section \<open>Notions used to state the properties\<close>

text \<open>
  A matrix value is proper when each of its columns has as many coefficients as the
  matrix has rows, and square when moreover it has as many columns as rows.
\<close>

definition proper :: "'a Matrix \<Rightarrow> bool" where
  "proper M = list_all (\<lambda>column. length column = rows M) (columns M)"

definition square :: "'a Matrix \<Rightarrow> bool" where
  "square M \<longleftrightarrow> proper M \<and> cols M = rows M"

text \<open>
  The elimination function that lines 66-69 and 100-108 pass to the collaborators for
  a value of \<^verbatim>\<open>factorization_\<close>; none for a value that is not recognised.
\<close>

definition eliminate_of :: "Factorization \<Rightarrow> Eliminate option" where
  "eliminate_of factorization =
     (if factorization = CHOLESKY then Some EliminatePreferCholesky
      else if factorization = QR then Some EliminateQR
      else None)"

text \<open>
  The joint marginal information as the specification words it, for comparison with
  \<open>jointMarginalInformation\<close>; none of these definitions uses a function of the
  embedding of \<^verbatim>\<open>jointMarginalInformation\<close>. The recorded dimensions are what the
  solution-point mapping holds for the requested keys, key by key in the order of the
  request, and the lookup fails at the first requested key that the mapping does not
  hold. The information matrix is the augmented information matrix of a factor graph
  without its last row and last column; a matrix without a row or without a column
  has none to strip. For a pair the factor graph is the joint of the pair in the Bayes
  tree; for more than two variables it is the original linear graph eliminated anew
  with the requested variables as ordering and converted to a factor graph.
\<close>

definition spec_dimensions :: "Values \<Rightarrow> Key list \<Rightarrow> error + nat list" where
  "spec_dimensions vals variables =
     (case find (\<lambda>key. vals key = None) variables of
        Some key \<Rightarrow> Inl (ValuesKeyDoesNotExist key)
      | None \<Rightarrow> Inr (map (\<lambda>key. the (vals key)) variables))"

definition spec_strip_last :: "'a Matrix \<Rightarrow> error + 'a Matrix" where
  "spec_strip_last M =
     (if rows M = 0 \<or> cols M = 0 then Inl IndexError
      else Inr \<lparr> rows = rows M - 1, columns = map butlast (butlast (columns M)) \<rparr>)"

definition spec_information_of_graph ::
  "('a, 'n, 'g, 't, 'f) Collaborators \<Rightarrow> Values \<Rightarrow> 'g \<Rightarrow> Key list \<Rightarrow> error + 'a JointMarginal" where
  "spec_information_of_graph c vals fg variables =
     (case spec_dimensions vals variables of
        Inl e \<Rightarrow> Inl e
      | Inr dims \<Rightarrow>
          (case spec_strip_last (augmentedHessian c fg) of
             Inl e \<Rightarrow> Inl e
           | Inr info \<Rightarrow> Inr (JointMarginal info dims variables)))"

definition spec_joint_pair ::
  "('a, 'n, 'g, 't, 'f) Collaborators \<Rightarrow> ('g, 't) Marginals \<Rightarrow> Eliminate \<Rightarrow> Key \<Rightarrow> Key
     \<Rightarrow> error + 'a JointMarginal" where
  "spec_joint_pair c this strategy a b =
     (case call (joint c (M_bayesTree this) a b strategy) of
        Inl e \<Rightarrow> Inl e
      | Inr fg \<Rightarrow> spec_information_of_graph c (M_values this) fg [a, b])"

definition spec_joint_many ::
  "('a, 'n, 'g, 't, 'f) Collaborators \<Rightarrow> ('g, 't) Marginals \<Rightarrow> Eliminate \<Rightarrow> Key list
     \<Rightarrow> error + 'a JointMarginal" where
  "spec_joint_many c this strategy variables =
     (case call (marginalMultifrontalBayesTree c (M_graph this) variables strategy) of
        Inl e \<Rightarrow> Inl e
      | Inr bt \<Rightarrow> spec_information_of_graph c (M_values this) (asFactorGraph c bt) variables)"


section \<open>The store as a sequence of blocks\<close>

text \<open>
  For the proofs a store is related to the sequence \<open>bs\<close> of its blocks, each a list of
  columns: the matrix is their concatenation and the offsets are the cumulative
  widths. \<open>encode\<close> is the content of a block after a term was copied into it.
\<close>

definition store_holds :: "'a VerticalBlockMatrix \<Rightarrow> nat \<Rightarrow> 'a option list list list \<Rightarrow> bool" where
  "store_holds s m bs \<longleftrightarrow>
     store_rows s = m \<and> columns (matrix s) = concat bs
     \<and> variableColOffsets s = fillOffsets 0 (map length bs)"

definition encode :: "Key \<times> 'a Matrix \<Rightarrow> 'a option list list" where
  "encode t = map (map Some) (columns (snd t))"

section \<open>Concrete inputs\<close>

definition example_store :: "int VerticalBlockMatrix" where
  "example_store =
     \<lparr> matrix = \<lparr> rows = 2, columns = [[Some 1, Some 0], [Some 0, Some 1], [Some 5, Some 6]] \<rparr>,
       variableColOffsets = [0, 2, 3] \<rparr>"

definition example_terms :: "(Key \<times> int Matrix) list" where
  "example_terms =
     [(1, \<lparr> rows = 2, columns = [[1, 0], [0, 1]] \<rparr>), (2, \<lparr> rows = 2, columns = [[3, 4]] \<rparr>)]"

text \<open>Terms with matching row counts, the second of which has no column.\<close>

definition zero_width_terms :: "(Key \<times> int Matrix) list" where
  "zero_width_terms =
     [(1, \<lparr> rows = 2, columns = [[1, 0], [0, 1]] \<rparr>), (2, \<lparr> rows = 2, columns = [] \<rparr>)]"

text \<open>
  An example of collaborators over real scalars: the variables 5, 6 and 7, each of
  dimension 1 and with information 2, independent of one another. A linear graph and a
  Bayes tree are the list of their keys. \<open>diagonal n k\<close> is the \<open>n \<times> n\<close> matrix with 2
  in the first \<open>k\<close> places of the diagonal; \<open>reciprocal\<close> inverts a diagonal matrix
  with no zero on its diagonal. \<open>singular_collaborators\<close> differ in that the information
  matrix of every marginal factor is the \<open>1 \<times> 1\<close> zero matrix.
\<close>

definition reciprocal :: "real Matrix \<Rightarrow> real Matrix" where
  "reciprocal M = \<lparr> rows = rows M, columns = map (map inverse) (columns M) \<rparr>"

definition diagonal :: "nat \<Rightarrow> nat \<Rightarrow> real Matrix" where
  "diagonal n k =
     \<lparr> rows = n,
       columns = map (\<lambda>j. map (\<lambda>i. if i = j \<and> i < k then 2 else 0) [0 ..< n]) [0 ..< n] \<rparr>"

definition example_collaborators :: "(real, unit, Key list, Key list, Key) Collaborators" where
  "example_collaborators =
     \<lparr> linearize = (\<lambda>graph solution. Inr [5, 6, 7]),
       eliminateMultifrontal = (\<lambda>g e. Inr g),
       marginalFactor = (\<lambda>t k e. if k \<in> set t then Inr k else Inl ''key not in the Bayes tree''),
       information = (\<lambda>k. diagonal 1 1),
       joint = (\<lambda>t a b e. if a \<in> set t \<and> b \<in> set t then Inr [a, b] else Inl ''key not in the Bayes tree''),
       marginalMultifrontalBayesTree = (\<lambda>g variables e. Inr variables),
       asFactorGraph = (\<lambda>t. t),
       augmentedHessian = (\<lambda>g. diagonal (length g + 1) (length g)),
       inverse_matrix = reciprocal,
       emptyBayesTree = [],
       emptyFactorGraph = [] \<rparr>"

definition example_values :: Values where
  "example_values = [5 \<mapsto> 1, 6 \<mapsto> 1, 7 \<mapsto> 1]"

definition example_marginals :: "Factorization \<Rightarrow> Values \<Rightarrow> (Key list, Key list) Marginals" where
  "example_marginals factorization vals =
     \<lparr> M_graph = [5, 6, 7], M_values = vals, M_factorization = factorization,
       M_bayesTree = [5, 6, 7] \<rparr>"

text \<open>
  A second example, in which the variables differ in dimension: 5 has dimension 1, 6
  has dimension 2 and 7 has dimension 3, so that the order of the recorded dimensions
  can be seen.
\<close>

definition mixed_dim :: "Key \<Rightarrow> nat" where
  "mixed_dim key = (if key = 5 then 1 else if key = 6 then 2 else 3)"

definition mixed_collaborators :: "(real, unit, Key list, Key list, Key) Collaborators" where
  "mixed_collaborators =
     example_collaborators
       \<lparr> information := (\<lambda>key. diagonal (mixed_dim key) (mixed_dim key)),
         augmentedHessian :=
           (\<lambda>g. diagonal (sum_list (map mixed_dim g) + 1) (sum_list (map mixed_dim g))) \<rparr>"

definition mixed_values :: Values where
  "mixed_values = [5 \<mapsto> 1, 6 \<mapsto> 2, 7 \<mapsto> 3]"

definition singular_collaborators :: "(real, unit, Key list, Key list, Key) Collaborators" where
  "singular_collaborators = example_collaborators \<lparr> information := (\<lambda>k. \<lparr> rows = 1, columns = [[0]] \<rparr>) \<rparr>"

section \<open>Properties of the block matrix store\<close>

lemma fillOffsets_length: "length (fillOffsets a ds) = Suc (length ds)"
  by (induction ds arbitrary: a) simp_all

lemma fillOffsets_nth:
  "k \<le> length ds \<Longrightarrow> fillOffsets a ds ! k = a + sum_list (take k ds)"
proof (induction ds arbitrary: a k)
  case Nil
  then show ?case by simp
next
  case (Cons d ds)
  then show ?case by (cases k) simp_all
qed

lemma store_holds_nBlocks: "store_holds s m bs \<Longrightarrow> nBlocks s = int (length bs)"
  by (simp add: store_holds_def nBlocks_def fillOffsets_length)

lemma store_holds_blockStart:
  assumes "store_holds s m bs" "k \<le> length bs"
  shows "blockStart s k = length (concat (take k bs))"
  using assms by (simp add: store_holds_def blockStart_def fillOffsets_nth length_concat take_map)

lemma store_holds_blockWidth:
  assumes "store_holds s m bs" "k < length bs"
  shows "blockWidth s k = length (bs ! k)"
proof -
  have "variableColOffsets s ! Suc k = length (concat (take (Suc k) bs))"
    using assms store_holds_blockStart [of s m bs "Suc k"] by (simp add: blockStart_def)
  moreover have "variableColOffsets s ! k = length (concat (take k bs))"
    using assms store_holds_blockStart [of s m bs k] by (simp add: blockStart_def)
  ultimately show ?thesis
    using assms(2) by (simp add: blockWidth_def take_Suc_conv_app_nth)
qed

lemma concat_split_at:
  assumes "k < length bs"
  shows "concat bs = concat (take k bs) @ bs ! k @ concat (drop (Suc k) bs)"
proof -
  have "bs = take k bs @ bs ! k # drop (Suc k) bs"
    using assms by (rule id_take_nth_drop)
  then have "concat bs = concat (take k bs @ bs ! k # drop (Suc k) bs)" by simp
  then show ?thesis by simp
qed

lemma store_holds_block:
  assumes "store_holds s m bs" "k < length bs"
  shows "block s (int k) = Inr \<lparr> rows = m, columns = bs ! k \<rparr>"
proof -
  have c: "columns (matrix s) = concat (take k bs) @ bs ! k @ concat (drop (Suc k) bs)"
    using assms concat_split_at [of k bs] by (simp add: store_holds_def)
  have "take (length (bs ! k)) (drop (length (concat (take k bs))) (columns (matrix s))) = bs ! k"
    by (simp add: c)
  then show ?thesis
    using assms store_holds_nBlocks [OF assms(1)] store_holds_blockStart [of s m bs k]
          store_holds_blockWidth [OF assms]
    by (simp add: block_def store_holds_def)
qed

lemma store_holds_assignBlock:
  assumes "store_holds s m bs" "k < length bs" "rows M = m" "cols M = length (bs ! k)"
  shows "\<exists>s'. assignBlock s (int k) M = Inr s'
              \<and> store_holds s' m (bs[k := map (map Some) (columns M)])"
proof -
  let ?new = "map (map Some) (columns M)"
  have c: "columns (matrix s) = concat (take k bs) @ bs ! k @ concat (drop (Suc k) bs)"
    using assms concat_split_at [of k bs] by (simp add: store_holds_def)
  have st: "blockStart s k = length (concat (take k bs))"
    using assms store_holds_blockStart [of s m bs k] by simp
  have wd: "blockWidth s k = length (bs ! k)"
    using assms store_holds_blockWidth by blast
  have upd: "bs[k := ?new] = take k bs @ ?new # drop (Suc k) bs"
    using assms(2) by (rule upd_conv_take_nth_drop)
  have "take (blockStart s k) (columns (matrix s)) @ ?new
          @ drop (blockStart s k + blockWidth s k) (columns (matrix s))
        = concat (take k bs) @ ?new @ concat (drop (Suc k) bs)"
    by (simp add: st wd c)
  also have "\<dots> = concat (bs[k := ?new])"
    by (simp add: upd)
  finally have cols': "take (blockStart s k) (columns (matrix s)) @ ?new
          @ drop (blockStart s k + blockWidth s k) (columns (matrix s)) = concat (bs[k := ?new])" .
  have len: "map length (bs[k := ?new]) = map length bs"
    using assms(2,4) by (simp add: map_update cols_def list_update_same_conv)
  have ok: "\<not> \<not> (0 \<le> int k \<and> int k < nBlocks s)"
    using assms store_holds_nBlocks [OF assms(1)] by simp
  have shape: "\<not> (rows M \<noteq> store_rows s \<or> cols M \<noteq> blockWidth s (nat (int k)))"
    using assms wd by (simp add: store_holds_def)
  show ?thesis
    using assms(1) ok shape cols' len
    by (simp add: assignBlock_def store_holds_def store_rows_def)
qed

lemma concat_replicate_blocks:
  "concat (map (\<lambda>w. replicate w x) W) = replicate (sum_list W) x"
  by (induction W) (simp_all add: replicate_add)

lemma sum_list_int: "sum_list (map int W) = int (sum_list W)"
  by (induction W) simp_all

lemma store_holds_fresh:
  assumes "\<forall>w \<in> set W. 0 < w"
  shows "\<exists>s. VerticalBlockMatrix (map int W) (int m) = Inr s
           \<and> store_holds s m (map (\<lambda>w. replicate w (replicate m None)) W)"
proof -
  have e: "map (length \<circ> (\<lambda>w. replicate w (replicate m None))) W = W"
    by (induction W) simp_all
  have p: "\<not> list_ex (\<lambda>width. width \<le> 0) (map int W)"
    using assms by (auto simp: list_ex_iff)
  have n: "map nat (map int W) = W"
    by (induction W) simp_all
  show ?thesis
    using p
    by (simp add: store_holds_def VerticalBlockMatrix_def store_rows_def
                  concat_replicate_blocks e n sum_list_int comp_def)
qed

lemma zero_width_refused:
  assumes "\<exists>w \<in> set W. w = 0"
  shows "VerticalBlockMatrix (map int W) (int m) = Inl DimensionError"
  using assms by (auto simp: VerticalBlockMatrix_def list_ex_iff)

lemma widths_of_terms:
  "map (\<lambda>p. int (cols (snd p))) terms @ [1] = map int (map (\<lambda>p. cols (snd p)) terms @ [1])"
  by (simp add: comp_def)

lemma fillTerms_loop_result:
  assumes "store_holds (JF_Ab this) m bs"
      and "length (JF_keys this) = i + length rest"
      and "length bs = Suc (i + length rest)"
      and "\<forall>j < length rest. cols (snd (rest ! j)) = length (bs ! (i + j))"
  shows "case find (\<lambda>t. rows (snd t) \<noteq> m) rest of
           Some t \<Rightarrow> fillTerms_loop rest m (int i) this = Inl (InvalidMatrixBlock m (rows (snd t)))
         | None \<Rightarrow> \<exists>this'. fillTerms_loop rest m (int i) this = Inr this'
              \<and> JF_keys this' = take i (JF_keys this) @ map fst rest
              \<and> store_holds (JF_Ab this') m (take i bs @ map encode rest @ drop (i + length rest) bs)
              \<and> JF_model this' = JF_model this"
  using assms
proof (induction rest arbitrary: i this bs)
  case Nil
  then show ?case by simp
next
  case (Cons t rest)
  show ?case
  proof (cases "rows (snd t) \<noteq> m")
    case True
    then show ?thesis by simp
  next
    case False
    then have rows_ok: "rows (snd t) = m" by simp
    have i_lt: "i < length bs" using Cons.prems(3) by simp
    have width: "cols (snd t) = length (bs ! i)"
      using Cons.prems(4) by (auto dest: spec [of _ 0])
    obtain s' where s': "assignBlock (JF_Ab this) (int i) (snd t) = Inr s'"
        and holds': "store_holds s' m (bs[i := encode t])"
      using store_holds_assignBlock [OF Cons.prems(1) i_lt rows_ok width]
      by (auto simp: encode_def)
    let ?this' = "this \<lparr> JF_keys := (JF_keys this)[i := fst t], JF_Ab := s' \<rparr>"
    have step: "fillTerms_loop (t # rest) m (int i) this = fillTerms_loop rest m (int (Suc i)) ?this'"
      using rows_ok s' Cons.prems(2) by (simp add: add.commute)
    have p1: "store_holds (JF_Ab ?this') m (bs[i := encode t])" using holds' by simp
    have p2: "length (JF_keys ?this') = Suc i + length rest" using Cons.prems(2) by simp
    have p3: "length (bs[i := encode t]) = Suc (Suc i + length rest)" using Cons.prems(3) by simp
    have p4: "\<forall>j < length rest. cols (snd (rest ! j)) = length (bs[i := encode t] ! (Suc i + j))"
    proof (intro allI impI)
      fix j assume "j < length rest"
      then have "cols (snd ((t # rest) ! Suc j)) = length (bs ! (i + Suc j))"
        using Cons.prems(4) by (auto dest!: spec [of _ "Suc j"])
      then show "cols (snd (rest ! j)) = length (bs[i := encode t] ! (Suc i + j))" by simp
    qed
    note IH = Cons.IH [OF p1 p2 p3 p4]
    have k1: "take (Suc i) ((JF_keys this)[i := fst t]) = take i (JF_keys this) @ [fst t]"
      using Cons.prems(2) by (simp add: take_Suc_conv_app_nth)
    have k2: "take (Suc i) (bs[i := encode t]) = take i bs @ [encode t]"
      using i_lt by (simp add: take_Suc_conv_app_nth)
    have k3: "drop (Suc i + length rest) (bs[i := encode t]) = drop (Suc i + length rest) bs"
      by simp
    show ?thesis
      using IH rows_ok unfolding step
      by (simp add: k1 k2 k3 split: option.splits)
  qed
qed


lemma resize_length: "length (resize ks n) = n"
  by (simp add: resize_def)

text \<open>The state of the factor when the loop starts, and what the loop does from there.\<close>

lemma fillTerms_loop_from_start:
  fixes terms :: "(Key \<times> 'a Matrix) list" and this :: "'a JacobianFactor" and m :: nat
  assumes fresh: "store_holds s m
        (map (\<lambda>w. replicate w (replicate m None)) (map (\<lambda>p. cols (snd p)) terms @ [1]))"
  defines "start \<equiv> this \<lparr> JF_keys := resize (JF_keys this) (length terms), JF_Ab := s \<rparr>"
  shows "case find (\<lambda>t. rows (snd t) \<noteq> m) terms of
           Some t \<Rightarrow> fillTerms_loop terms m 0 start = Inl (InvalidMatrixBlock m (rows (snd t)))
         | None \<Rightarrow> \<exists>this'. fillTerms_loop terms m 0 start = Inr this'
              \<and> JF_keys this' = map fst terms
              \<and> store_holds (JF_Ab this') m (map encode terms @ [[replicate m None]])
              \<and> JF_model this' = JF_model this"
proof -
  let ?W = "map (\<lambda>p. cols (snd p)) terms @ [1]"
  let ?bs = "map (\<lambda>w. replicate w (replicate m (None :: 'a option))) ?W"
  have a1: "store_holds (JF_Ab start) m ?bs"
    unfolding start_def using fresh by simp
  have a2: "length (JF_keys start) = 0 + length terms"
    by (simp add: start_def resize_length)
  have a3: "length ?bs = Suc (0 + length terms)" by simp
  have a4: "\<forall>j < length terms. cols (snd (terms ! j)) = length (?bs ! (0 + j))"
    by (simp add: nth_append)
  have d: "drop (length terms) ?bs = [[replicate m None]]" by simp
  show ?thesis
    using fillTerms_loop_result [OF a1 a2 a3 a4] d
    by (simp add: start_def split: option.splits)
qed

lemma assign_b_last:
  assumes "store_holds (JF_Ab this) (length b) (bs @ [[old]])" "length (JF_keys this) = length bs"
  shows "\<exists>this'. assign_b this b = Inr this' \<and> JF_keys this' = JF_keys this
           \<and> JF_model this' = JF_model this
           \<and> store_holds (JF_Ab this') (length b) (bs @ [[map Some b]])"
proof -
  have "\<exists>s'. assignBlock (JF_Ab this) (int (length bs)) \<lparr> rows = length b, columns = [b] \<rparr> = Inr s'
          \<and> store_holds s' (length b)
                ((bs @ [[old]])[length bs := map (map Some) (columns \<lparr> rows = length b, columns = [b] \<rparr>)])"
    by (rule store_holds_assignBlock [OF assms(1)]) (simp_all add: cols_def)
  then show ?thesis
    using assms(2) by (auto simp: assign_b_def)
qed

lemma fillTerms_noise_error:
  "checkNoiseModel noiseModel (length b) = Some e \<Longrightarrow> fillTerms this terms b noiseModel = Inl e"
  by (simp add: fillTerms_def)

lemma fillTerms_dimension_error:
  fixes terms :: "(Key \<times> 'a Matrix) list" and this :: "'a JacobianFactor"
  assumes "checkNoiseModel noiseModel (length b) = None"
      and "\<exists>t \<in> set terms. cols (snd t) = 0"
  shows "fillTerms this terms b noiseModel = Inl DimensionError"
proof -
  from assms(2) obtain t where "t \<in> set terms" "cols (snd t) = 0" by blast
  then have "0 \<in> set (map (\<lambda>p. cols (snd p)) terms @ [1])" by force
  then have "\<exists>w \<in> set (map (\<lambda>p. cols (snd p)) terms @ [1]). w = 0" by blast
  then have "(VerticalBlockMatrix (map int (map (\<lambda>p. cols (snd p)) terms @ [1])) (int (length b))
               :: error + 'a VerticalBlockMatrix) = Inl DimensionError"
    by (rule zero_width_refused)
  then have "(VerticalBlockMatrix (map (\<lambda>p. int (cols (snd p))) terms @ [1]) (int (length b))
               :: error + 'a VerticalBlockMatrix) = Inl DimensionError"
    unfolding widths_of_terms .
  then show ?thesis
    using assms(1) by (simp add: fillTerms_def)
qed

lemma fillTerms_store:
  assumes "\<forall>t \<in> set terms. 0 < cols (snd t)"
  shows "\<exists>s. VerticalBlockMatrix (map (\<lambda>p. int (cols (snd p))) terms @ [1]) (int m) = Inr s
           \<and> store_holds s m
                 (map (\<lambda>w. replicate w (replicate m None)) (map (\<lambda>p. cols (snd p)) terms @ [1]))"
proof -
  from assms have "\<forall>w \<in> set (map (\<lambda>p. cols (snd p)) terms @ [1]). 0 < w" by auto
  from store_holds_fresh [OF this, of m] show ?thesis
    unfolding widths_of_terms .
qed

lemma fillTerms_block_error:
  fixes terms :: "(Key \<times> 'a Matrix) list" and this :: "'a JacobianFactor"
  assumes "checkNoiseModel noiseModel (length b) = None"
      and "\<forall>t \<in> set terms. 0 < cols (snd t)"
      and "find (\<lambda>t. rows (snd t) \<noteq> length b) terms = Some t"
  shows "fillTerms this terms b noiseModel = Inl (InvalidMatrixBlock (length b) (rows (snd t)))"
proof -
  obtain s :: "'a VerticalBlockMatrix"
    where s: "VerticalBlockMatrix (map (\<lambda>p. int (cols (snd p))) terms @ [1]) (int (length b)) = Inr s"
      and h: "store_holds s (length b)
                 (map (\<lambda>w. replicate w (replicate (length b) None)) (map (\<lambda>p. cols (snd p)) terms @ [1]))"
    using fillTerms_store [OF assms(2)] by blast
  show ?thesis
    using assms(1,3) s fillTerms_loop_from_start [OF h, of this]
    by (simp add: fillTerms_def)
qed

lemma fillTerms_success:
  fixes terms :: "(Key \<times> 'a Matrix) list" and this :: "'a JacobianFactor"
  assumes "checkNoiseModel noiseModel (length b) = None"
      and "\<forall>t \<in> set terms. 0 < cols (snd t)"
      and "find (\<lambda>t. rows (snd t) \<noteq> length b) terms = None"
  shows "\<exists>f. fillTerms this terms b noiseModel = Inr f
          \<and> JF_keys f = map fst terms \<and> JF_model f = noiseModel
          \<and> store_holds (JF_Ab f) (length b) (map encode terms @ [[map Some b]])"
proof -
  obtain s :: "'a VerticalBlockMatrix"
    where s: "VerticalBlockMatrix (map (\<lambda>p. int (cols (snd p))) terms @ [1]) (int (length b)) = Inr s"
      and fresh: "store_holds s (length b)
                 (map (\<lambda>w. replicate w (replicate (length b) None)) (map (\<lambda>p. cols (snd p)) terms @ [1]))"
    using fillTerms_store [OF assms(2)] by blast
  obtain this' where l: "fillTerms_loop terms (length b) 0
        (this \<lparr> JF_keys := resize (JF_keys this) (length terms), JF_Ab := s \<rparr>) = Inr this'"
    and k: "JF_keys this' = map fst terms"
    and h: "store_holds (JF_Ab this') (length b) (map encode terms @ [[replicate (length b) None]])"
    using assms(3) fillTerms_loop_from_start [OF fresh, of this] by auto
  have "length (JF_keys this') = length (map encode terms)" using k by simp
  from assign_b_last [OF h this] obtain this'' where
    "assign_b this' b = Inr this''" "JF_keys this'' = JF_keys this'"
    "store_holds (JF_Ab this'') (length b) (map encode terms @ [[map Some b]])"
    by blast
  then show ?thesis
    using assms(1) s l k by (simp add: fillTerms_def)
qed

lemma noise_ok_iff:
  "checkNoiseModel model n = None \<longleftrightarrow> (model = None \<or> model = Some n)"
  by (auto simp: checkNoiseModel_def split: option.splits)

lemma noise_bad_iff:
  "checkNoiseModel model n = Some e \<longleftrightarrow> (\<exists>d. model = Some d \<and> d \<noteq> n \<and> e = InvalidNoiseModel n d)"
  by (auto simp: checkNoiseModel_def split: option.splits)

lemma first_bad_block:
  "find (\<lambda>t. rows (snd t) \<noteq> n) terms = Some t \<longleftrightarrow>
     (\<exists>k < length terms. rows (snd (terms ! k)) \<noteq> n \<and> t = terms ! k
         \<and> (\<forall>j < k. rows (snd (terms ! j)) = n))"
  by (simp add: find_Some_iff)

section \<open>Construction of a factor from keyed blocks\<close>

text \<open>
  Claim C3, as the code has it. In \<open>fillTerms\<close>, a noise model that is present and
  whose dimension differs from the length of the right-hand side \<open>b\<close> makes the
  construction fail with \<open>InvalidNoiseModel (length b) dimension\<close>, whatever the blocks
  are; otherwise a block without a column makes the construction of the store fail
  with \<open>DimensionError\<close>, whatever the row counts are; otherwise the first block, in the
  order of iteration, whose row count differs from \<open>length b\<close> makes it fail with
  \<open>InvalidMatrixBlock (length b) rowCount\<close>; and every failure of \<open>fillTerms\<close> is one of
  these three.
\<close>

theorem fillTerms_errors:
  "(\<forall>d. noiseModel = Some d \<and> d \<noteq> length b \<longrightarrow>
        fillTerms this terms b noiseModel = Inl (InvalidNoiseModel (length b) d))
   \<and> ((noiseModel = None \<or> noiseModel = Some (length b))
        \<and> (\<exists>t \<in> set terms. cols (snd t) = 0) \<longrightarrow>
        fillTerms this terms b noiseModel = Inl DimensionError)
   \<and> ((noiseModel = None \<or> noiseModel = Some (length b))
        \<and> (\<forall>t \<in> set terms. 0 < cols (snd t)) \<longrightarrow>
        (\<forall>k < length terms.
            rows (snd (terms ! k)) \<noteq> length b \<and> (\<forall>j < k. rows (snd (terms ! j)) = length b) \<longrightarrow>
            fillTerms this terms b noiseModel
              = Inl (InvalidMatrixBlock (length b) (rows (snd (terms ! k))))))
   \<and> (\<forall>e. fillTerms this terms b noiseModel = Inl e \<longrightarrow>
        (\<exists>d. noiseModel = Some d \<and> d \<noteq> length b \<and> e = InvalidNoiseModel (length b) d)
        \<or> ((noiseModel = None \<or> noiseModel = Some (length b))
            \<and> (\<exists>t \<in> set terms. cols (snd t) = 0) \<and> e = DimensionError)
        \<or> ((noiseModel = None \<or> noiseModel = Some (length b))
            \<and> (\<forall>t \<in> set terms. 0 < cols (snd t))
            \<and> (\<exists>k < length terms.
                  rows (snd (terms ! k)) \<noteq> length b \<and> (\<forall>j < k. rows (snd (terms ! j)) = length b)
                  \<and> e = InvalidMatrixBlock (length b) (rows (snd (terms ! k))))))"
proof (intro conjI allI impI)
  fix d assume "noiseModel = Some d \<and> d \<noteq> length b"
  then have "checkNoiseModel noiseModel (length b) = Some (InvalidNoiseModel (length b) d)"
    by (simp add: noise_bad_iff)
  then show "fillTerms this terms b noiseModel = Inl (InvalidNoiseModel (length b) d)"
    by (rule fillTerms_noise_error)
next
  assume "(noiseModel = None \<or> noiseModel = Some (length b))
        \<and> (\<exists>t \<in> set terms. cols (snd t) = 0)"
  then show "fillTerms this terms b noiseModel = Inl DimensionError"
    using fillTerms_dimension_error [of noiseModel b terms this] by (simp add: noise_ok_iff)
next
  fix k
  assume ok: "(noiseModel = None \<or> noiseModel = Some (length b))
        \<and> (\<forall>t \<in> set terms. 0 < cols (snd t))"
     and "k < length terms"
     and "rows (snd (terms ! k)) \<noteq> length b \<and> (\<forall>j < k. rows (snd (terms ! j)) = length b)"
  then have "find (\<lambda>t. rows (snd t) \<noteq> length b) terms = Some (terms ! k)"
    unfolding first_bad_block by blast
  moreover from ok have "checkNoiseModel noiseModel (length b) = None"
    by (simp add: noise_ok_iff)
  ultimately show "fillTerms this terms b noiseModel
      = Inl (InvalidMatrixBlock (length b) (rows (snd (terms ! k))))"
    using ok fillTerms_block_error by blast
next
  fix e assume fails: "fillTerms this terms b noiseModel = Inl e"
  show "(\<exists>d. noiseModel = Some d \<and> d \<noteq> length b \<and> e = InvalidNoiseModel (length b) d)
        \<or> ((noiseModel = None \<or> noiseModel = Some (length b))
            \<and> (\<exists>t \<in> set terms. cols (snd t) = 0) \<and> e = DimensionError)
        \<or> ((noiseModel = None \<or> noiseModel = Some (length b))
            \<and> (\<forall>t \<in> set terms. 0 < cols (snd t))
            \<and> (\<exists>k < length terms.
                  rows (snd (terms ! k)) \<noteq> length b \<and> (\<forall>j < k. rows (snd (terms ! j)) = length b)
                  \<and> e = InvalidMatrixBlock (length b) (rows (snd (terms ! k)))))"
  proof (cases "checkNoiseModel noiseModel (length b)")
    case (Some e')
    then have "e = e'" using fails fillTerms_noise_error [OF Some] by simp
    then show ?thesis using Some by (simp add: noise_bad_iff)
  next
    case None
    then have ok: "noiseModel = None \<or> noiseModel = Some (length b)"
      by (simp add: noise_ok_iff)
    show ?thesis
    proof (cases "\<exists>t \<in> set terms. cols (snd t) = 0")
      case True
      then have "e = DimensionError"
        using fails fillTerms_dimension_error [OF None True, of this] by simp
      then show ?thesis using ok True by blast
    next
      case False
      then have pos: "\<forall>t \<in> set terms. 0 < cols (snd t)" by simp
      show ?thesis
      proof (cases "find (\<lambda>t. rows (snd t) \<noteq> length b) terms")
        case nobad: None
        then show ?thesis
          using fails fillTerms_success [OF None pos nobad, of this] by auto
      next
        case (Some t)
        then have "e = InvalidMatrixBlock (length b) (rows (snd t))"
          using fails fillTerms_block_error [OF None pos Some, of this] by simp
        moreover obtain k where "k < length terms" "rows (snd (terms ! k)) \<noteq> length b"
            "t = terms ! k" "\<forall>j < k. rows (snd (terms ! j)) = length b"
          using Some unfolding first_bad_block by blast
        ultimately show ?thesis using ok pos by blast
      qed
    qed
  qed
qed

theorem fillTerms_errors_witness:
  "fillTerms JacobianFactor_empty [(1, \<lparr> rows = 2, columns = [[10, 20 :: int]] \<rparr>)] [0, 0, 0] None
      = Inl (InvalidMatrixBlock 3 2)
   \<and> fillTerms JacobianFactor_empty [(1, \<lparr> rows = 2, columns = [[10, 20 :: int]] \<rparr>)] [0, 0, 0] (Some 4)
      = Inl (InvalidNoiseModel 3 4)
   \<and> fillTerms JacobianFactor_empty [(1, \<lparr> rows = 3, columns = [] :: int list list \<rparr>)] [0, 0, 0] (Some 3)
      = Inl DimensionError"
  using fillTerms_errors [of None "[0, 0, 0 :: int]" JacobianFactor_empty
          "[(1, \<lparr> rows = 2, columns = [[10, 20]] \<rparr>)]",
          THEN conjunct2, THEN conjunct2, THEN conjunct1, rule_format, of 0]
        fillTerms_errors [of "Some 4" "[0, 0, 0 :: int]" JacobianFactor_empty
          "[(1, \<lparr> rows = 2, columns = [[10, 20]] \<rparr>)]", THEN conjunct1, rule_format, of 4]
        fillTerms_errors [of "Some 3" "[0, 0, 0 :: int]" JacobianFactor_empty
          "[(1, \<lparr> rows = 3, columns = [] \<rparr>)]", THEN conjunct2, THEN conjunct1]
  by (simp add: cols_def)

text \<open>
  Claim C3 as it is worded has no error but the two it names, and
  \<open>InvalidMatrixBlock\<close> for the first block whose row count differs. For a right-hand
  side of length 3 and one block of 2 rows and no column, with no noise model, the
  construction fails with \<open>DimensionError\<close>.
\<close>

theorem fillTerms_zero_width_counterexample:
  "fillTerms JacobianFactor_empty [(1, \<lparr> rows = 2, columns = [] :: int list list \<rparr>)] [0, 0, 0] None
     = Inl DimensionError"
  by (simp add: fillTerms_def checkNoiseModel_def VerticalBlockMatrix_def cols_def)

text \<open>
  Claim C4, as the code has it. When every block has \<open>length b\<close> rows and at least one
  column, and the noise model is absent or of dimension \<open>length b\<close>, \<open>fillTerms\<close>
  succeeds; the factor holds the keys of the terms in order and the noise model; its
  store has one block more than there are terms and \<open>length b\<close> rows; the widths of the
  blocks are the column counts of the supplied matrices in order, followed by 1; block
  \<open>i\<close> holds the \<open>i\<close>-th supplied matrix and the last block holds \<open>b\<close>.
\<close>

theorem fillTerms_well_formed:
  assumes "\<forall>t \<in> set terms. rows (snd t) = length b"
      and "\<forall>t \<in> set terms. 0 < cols (snd t)"
      and "noiseModel = None \<or> noiseModel = Some (length b)"
  shows "\<exists>f. fillTerms this terms b noiseModel = Inr f
     \<and> JF_keys f = map fst terms
     \<and> JF_model f = noiseModel
     \<and> nBlocks (JF_Ab f) = int (length terms) + 1
     \<and> store_rows (JF_Ab f) = length b
     \<and> map (blockWidth (JF_Ab f)) [0 ..< length terms + 1] = map (\<lambda>t. cols (snd t)) terms @ [1]
     \<and> (\<forall>i < length terms.
           block (JF_Ab f) (int i)
             = Inr \<lparr> rows = length b, columns = map (map Some) (columns (snd (terms ! i))) \<rparr>)
     \<and> block (JF_Ab f) (int (length terms)) = Inr \<lparr> rows = length b, columns = [map Some b] \<rparr>"
proof -
  let ?bs = "map encode terms @ [[map Some b]]"
  have n: "checkNoiseModel noiseModel (length b) = None"
    using assms(3) by (simp add: noise_ok_iff)
  have nobad: "find (\<lambda>t. rows (snd t) \<noteq> length b) terms = None"
    using assms(1) by (auto simp: find_None_iff)
  obtain f where f: "fillTerms this terms b noiseModel = Inr f"
      and k: "JF_keys f = map fst terms" and m: "JF_model f = noiseModel"
      and h: "store_holds (JF_Ab f) (length b) ?bs"
    using fillTerms_success [OF n assms(2) nobad, of this] by blast
  have nb: "nBlocks (JF_Ab f) = int (length terms) + 1"
    using store_holds_nBlocks [OF h] by simp
  have r: "store_rows (JF_Ab f) = length b"
    using h by (simp add: store_holds_def)
  have w: "blockWidth (JF_Ab f) i = length (?bs ! i)" if "i < length terms + 1" for i
    using store_holds_blockWidth [OF h, of i] that by simp
  have ws: "map (blockWidth (JF_Ab f)) [0 ..< length terms + 1] = map (\<lambda>t. cols (snd t)) terms @ [1]"
  proof (rule nth_equalityI)
    show "length (map (blockWidth (JF_Ab f)) [0 ..< length terms + 1])
            = length (map (\<lambda>t. cols (snd t)) terms @ [1])" by simp
  next
    fix i assume "i < length (map (blockWidth (JF_Ab f)) [0 ..< length terms + 1])"
    then have i: "i < length terms + 1" by simp
    then have "[0 ..< length terms + 1] ! i = i"
      by (metis add_0 nth_upt)
    then show "map (blockWidth (JF_Ab f)) [0 ..< length terms + 1] ! i
                 = (map (\<lambda>t. cols (snd t)) terms @ [1]) ! i"
      using i w [OF i] by (auto simp: nth_append encode_def cols_def less_Suc_eq)
  qed
  have bl: "block (JF_Ab f) (int i)
             = Inr \<lparr> rows = length b, columns = map (map Some) (columns (snd (terms ! i))) \<rparr>"
    if "i < length terms" for i
    using store_holds_block [OF h, of i] that by (simp add: nth_append encode_def)
  have bb: "block (JF_Ab f) (int (length terms)) = Inr \<lparr> rows = length b, columns = [map Some b] \<rparr>"
    using store_holds_block [OF h, of "length terms"] by (simp add: nth_append)
  show ?thesis
    using f k m nb r ws bl bb by blast
qed

theorem fillTerms_well_formed_witness:
  "\<exists>f. fillTerms JacobianFactor_empty example_terms [5, 6] (Some 2) = Inr f
     \<and> JF_keys f = [1, 2]
     \<and> nBlocks (JF_Ab f) = 3
     \<and> map (blockWidth (JF_Ab f)) [0, 1, 2] = [2, 1, 1]
     \<and> block (JF_Ab f) 1 = Inr \<lparr> rows = 2, columns = [[Some 3, Some 4]] \<rparr>
     \<and> block (JF_Ab f) 2 = Inr \<lparr> rows = 2, columns = [[Some 5, Some 6]] \<rparr>"
proof -
  have h1: "\<forall>t \<in> set example_terms. rows (snd t) = length [5, 6 :: int]"
    by (simp add: example_terms_def)
  have h2: "\<forall>t \<in> set example_terms. 0 < cols (snd t)"
    by (simp add: example_terms_def cols_def)
  have h3: "Some 2 = None \<or> Some 2 = Some (length [5, 6 :: int])" by simp
  obtain f where f: "fillTerms JacobianFactor_empty example_terms [5, 6] (Some 2) = Inr f"
      "JF_keys f = map fst example_terms"
      "nBlocks (JF_Ab f) = int (length example_terms) + 1"
      "map (blockWidth (JF_Ab f)) [0 ..< length example_terms + 1] = map (\<lambda>t. cols (snd t)) example_terms @ [1]"
      "\<forall>i < length example_terms.
           block (JF_Ab f) (int i)
             = Inr \<lparr> rows = length [5, 6 :: int], columns = map (map Some) (columns (snd (example_terms ! i))) \<rparr>"
      "block (JF_Ab f) (int (length example_terms)) = Inr \<lparr> rows = length [5, 6 :: int], columns = [map Some [5, 6]] \<rparr>"
    using fillTerms_well_formed [OF h1 h2 h3, of JacobianFactor_empty] by blast
  have u: "[0 ..< length example_terms + 1] = [0, 1, 2]"
    by (simp add: example_terms_def upt_rec)
  have "(1::nat) < length example_terms" by (simp add: example_terms_def)
  from f(5) [rule_format, OF this]
  have b1: "block (JF_Ab f) 1 = Inr \<lparr> rows = 2, columns = [[Some 3, Some 4]] \<rparr>"
    by (simp add: example_terms_def)
  show ?thesis
    using f(1,2,3,4,6) b1 unfolding u
    by (simp add: example_terms_def cols_def)
qed

text \<open>
  Claim C4 as it is worded has the construction succeed whenever the row counts and
  the noise model agree with \<open>b\<close>. The terms \<open>zero_width_terms\<close> have 2 rows each, as
  \<open>b\<close> has, and the noise model has dimension 2; the second block has no column, and
  the construction fails with \<open>DimensionError\<close>.
\<close>

theorem fillTerms_well_formed_counterexample:
  "length zero_width_terms = 2
   \<and> rows (snd (zero_width_terms ! 0)) = length [5, 6 :: int]
   \<and> rows (snd (zero_width_terms ! 1)) = length [5, 6 :: int]
   \<and> fillTerms JacobianFactor_empty zero_width_terms [5, 6] (Some 2) = Inl DimensionError"
  by (simp add: zero_width_terms_def fillTerms_def checkNoiseModel_def VerticalBlockMatrix_def
        cols_def)

section \<open>Construction of a factor from keys and an assembled store\<close>

lemma block_last_defined:
  "int (length keys) = nBlocks A - 1 \<Longrightarrow> \<exists>B. block A (nBlocks A - 1) = Inr B"
  by (simp add: block_def)

text \<open>
  Claim C5. \<open>JacobianFactor_augmented\<close> checks, in this order: the dimension of a
  present noise model against the row count of the store (\<open>InvalidNoiseModel\<close>); the
  number of keys against the number of blocks minus one (\<open>invalid_argument\<close>); the
  width of the last block against 1 (\<open>invalid_argument\<close>). The block that the third
  check reads always exists when the second check has passed, and the construction
  succeeds exactly when the three conditions hold.
\<close>

theorem augmented_validation_order:
  fixes A :: "'a VerticalBlockMatrix"
  shows
  "(\<forall>d. model = Some d \<and> d \<noteq> store_rows A \<longrightarrow>
        JacobianFactor_augmented keys A model = Inl (InvalidNoiseModel (store_rows A) d))
   \<and> ((model = None \<or> model = Some (store_rows A)) \<and> int (length keys) \<noteq> nBlocks A - 1 \<longrightarrow>
        JacobianFactor_augmented keys A model = Inl (invalid_argument keys_blocks_message))
   \<and> ((model = None \<or> model = Some (store_rows A)) \<and> int (length keys) = nBlocks A - 1 \<longrightarrow>
        (\<exists>B. block A (nBlocks A - 1) = Inr B \<and>
             (cols B \<noteq> 1 \<longrightarrow>
                JacobianFactor_augmented keys A model = Inl (invalid_argument last_block_message)) \<and>
             (cols B = 1 \<longrightarrow>
                JacobianFactor_augmented keys A model =
                  Inr \<lparr> JF_keys = keys, JF_Ab = A, JF_model = model \<rparr>)))
   \<and> ((\<exists>f. JacobianFactor_augmented keys A model = Inr f) \<longleftrightarrow>
        (model = None \<or> model = Some (store_rows A)) \<and> int (length keys) = nBlocks A - 1
        \<and> (\<exists>B. block A (nBlocks A - 1) = Inr B \<and> cols B = 1))"
proof (intro conjI allI impI)
  fix d assume "model = Some d \<and> d \<noteq> store_rows A"
  then show "JacobianFactor_augmented keys A model = Inl (InvalidNoiseModel (store_rows A) d)"
    by (simp add: JacobianFactor_augmented_def checkNoiseModel_def)
next
  assume "(model = None \<or> model = Some (store_rows A)) \<and> int (length keys) \<noteq> nBlocks A - 1"
  then show "JacobianFactor_augmented keys A model = Inl (invalid_argument keys_blocks_message)"
    by (auto simp: JacobianFactor_augmented_def checkNoiseModel_def)
next
  assume h: "(model = None \<or> model = Some (store_rows A)) \<and> int (length keys) = nBlocks A - 1"
  then obtain B where B: "block A (nBlocks A - 1) = Inr B"
    using block_last_defined by blast
  from h have c: "checkNoiseModel model (store_rows A) = None"
    by (simp add: noise_ok_iff)
  show "\<exists>B. block A (nBlocks A - 1) = Inr B \<and>
             (cols B \<noteq> 1 \<longrightarrow>
                JacobianFactor_augmented keys A model = Inl (invalid_argument last_block_message)) \<and>
             (cols B = 1 \<longrightarrow>
                JacobianFactor_augmented keys A model =
                  Inr \<lparr> JF_keys = keys, JF_Ab = A, JF_model = model \<rparr>)"
    using h B c by (simp add: JacobianFactor_augmented_def)
next
  show "(\<exists>f. JacobianFactor_augmented keys A model = Inr f) \<longleftrightarrow>
        (model = None \<or> model = Some (store_rows A)) \<and> int (length keys) = nBlocks A - 1
        \<and> (\<exists>B. block A (nBlocks A - 1) = Inr B \<and> cols B = 1)"
  proof (cases "checkNoiseModel model (store_rows A)")
    case None
    then show ?thesis
      using noise_ok_iff [of model "store_rows A"]
      by (auto simp: JacobianFactor_augmented_def split: sum.splits)
  next
    case (Some e)
    then show ?thesis
      using noise_ok_iff [of model "store_rows A"]
      by (simp add: JacobianFactor_augmented_def)
  qed
qed

theorem augmented_validation_order_witness:
  "JacobianFactor_augmented [7] example_store (Some 2)
     = Inr \<lparr> JF_keys = [7], JF_Ab = example_store, JF_model = Some 2 \<rparr>
   \<and> JacobianFactor_augmented [7] example_store (Some 3) = Inl (InvalidNoiseModel 2 3)
   \<and> JacobianFactor_augmented [7, 8] example_store (Some 2) = Inl (invalid_argument keys_blocks_message)"
  using augmented_validation_order [of "Some 2" example_store "[7]"]
        augmented_validation_order [of "Some 3" example_store "[7]"]
        augmented_validation_order [of "Some 2" example_store "[7, 8]"]
  by (simp add: example_store_def store_rows_def nBlocks_def block_def blockWidth_def blockStart_def cols_def)

section \<open>Properties of the marginal query engine\<close>

lemma call_simps [simp]:
  "call (Inr x) = Inr x" "call (Inl s) = Inl (Thrown s)"
  by (simp_all add: call_def)

lemma call_not_null: "call r \<noteq> Inl NullPointerDereference"
  by (cases r) simp_all

lemma marginalInformation_values:
  "marginalInformation c (this \<lparr> M_values := vals \<rparr>) v = marginalInformation c this v"
  by (simp add: marginalInformation_def marginalFactor_pointer_def)

lemmas example_defs = example_collaborators_def example_marginals_def example_values_def diagonal_def reciprocal_def
  singular_collaborators_def

lemma example_marginalInformation:
  "marginalInformation example_collaborators (example_marginals QR vals) 5 = Inr \<lparr> rows = 1, columns = [[2]] \<rparr>"
  by (simp add: marginalInformation_def marginalFactor_pointer_def example_defs QR_def CHOLESKY_def)

lemma example_information:
  "marginalInformation example_collaborators (example_marginals CHOLESKY vals) 6 = Inr \<lparr> rows = 1, columns = [[2]] \<rparr>"
  by (simp add: marginalInformation_def marginalFactor_pointer_def example_defs CHOLESKY_def)

lemma singular_collaborators_information:
  "marginalInformation singular_collaborators (example_marginals CHOLESKY vals) 5 = Inr \<lparr> rows = 1, columns = [[0]] \<rparr>"
  by (simp add: marginalInformation_def marginalFactor_pointer_def singular_collaborators_def example_collaborators_def
        example_marginals_def CHOLESKY_def)

lemma example_proper: "proper (augmentedHessian example_collaborators g)"
  by (simp add: example_collaborators_def diagonal_def proper_def list_all_iff)

lemma example_strategy: "eliminate_of (M_factorization (example_marginals QR vals)) = Some EliminateQR"
  by (simp add: eliminate_of_def example_marginals_def QR_def CHOLESKY_def)

lemma example_jointFG_pair:
  "jointFG example_collaborators (example_marginals QR vals) [6, 5] = Inr [6, 5]"
  by (simp add: jointFG_def example_collaborators_def example_marginals_def QR_def CHOLESKY_def)

lemma example_pair_information:
  "jointMarginalInformation example_collaborators (example_marginals QR example_values) [6, 5]
     = Inr (JointMarginal \<lparr> rows = 2, columns = [[2, 0], [0, 2]] \<rparr> [1, 1] [6, 5])"
  by code_simp

lemma dims_from_values_spec: "dims_from_values vals variables = spec_dimensions vals variables"
proof (induction variables)
  case Nil
  then show ?case by (simp add: spec_dimensions_def)
next
  case (Cons key rest)
  show ?case
  proof (cases "vals key")
    case None
    then show ?thesis by (simp add: spec_dimensions_def)
  next
    case (Some d)
    then show ?thesis
      using Cons.IH by (simp add: spec_dimensions_def split: option.splits)
  qed
qed

lemma mixed_proper: "proper (augmentedHessian mixed_collaborators g)"
  by (simp add: mixed_collaborators_def example_collaborators_def diagonal_def proper_def list_all_iff)




lemma strip_last_refines:
  assumes "proper M"
  shows "topLeftCorner M (int (rows M) - 1) (int (cols M) - 1) = spec_strip_last M"
proof (cases "rows M = 0 \<or> cols M = 0")
  case True
  then show ?thesis by (auto simp: topLeftCorner_def spec_strip_last_def)
next
  case False
  have "map (\<lambda>column. take (rows M - 1) column) (take (cols M - 1) (columns M))
          = map butlast (butlast (columns M))"
  proof -
    have "take (rows M - 1) column = butlast column" if "column \<in> set (butlast (columns M))" for column
    proof -
      from that have "column \<in> set (columns M)" by (rule in_set_butlastD)
      then have "length column = rows M" using assms by (simp add: proper_def list_all_iff)
      then show ?thesis by (simp add: butlast_conv_take)
    qed
    then show ?thesis by (simp add: butlast_conv_take cols_def)
  qed
  moreover have "nat (int (rows M) - 1) = rows M - 1" "nat (int (cols M) - 1) = cols M - 1"
    by simp_all
  ultimately show ?thesis
    using False by (simp add: topLeftCorner_def spec_strip_last_def subMatrix_def)
qed

lemma subMatrix_whole:
  assumes "square M" "rows M = n"
  shows "subMatrix M 0 0 n n = M"
proof -
  have len: "length (columns M) = n" using assms by (simp add: square_def cols_def)
  have "take n column = column" if "column \<in> set (columns M)" for column
    using that assms by (simp add: square_def proper_def list_all_iff)
  then have "map (\<lambda>column. take n (drop 0 column)) (take n (drop 0 (columns M))) = columns M"
    using len by (simp add: map_idI)
  then show ?thesis
    using assms(2) by (simp add: subMatrix_def)
qed



text \<open>
  Claim C1, as the code has it. For a request of one variable \<open>v\<close>,
  \<open>jointMarginalInformation\<close> delegates to \<open>marginalInformation\<close> and wraps the matrix
  it returns into a joint marginal whose single dimension is the row count of that
  matrix; the solution-point mapping is not consulted on this path, so the result is
  the same whatever the mapping holds.
\<close>

theorem single_variable_information:
  "jointMarginalInformation c this [v] =
     (case marginalInformation c this v of
        Inl e \<Rightarrow> Inl e
      | Inr info \<Rightarrow> Inr (JointMarginal info [rows info] [v]))
   \<and> jointMarginalInformation c (this \<lparr> M_values := vals \<rparr>) [v] = jointMarginalInformation c this [v]"
  by (simp add: jointMarginalInformation_def marginalInformation_values)

theorem single_variable_information_witness:
  "jointMarginalInformation example_collaborators (example_marginals QR example_values) [5]
     = Inr (JointMarginal \<lparr> rows = 1, columns = [[2]] \<rparr> [1] [5])"
  using single_variable_information [of example_collaborators "example_marginals QR example_values" 5]
  by (simp add: example_marginalInformation)

text \<open>
  Claim C1 as it is worded has the dimension read from the solution-point mapping.
  In the example the mapping holds dimension 3 for the variable 5 while the marginal
  information matrix has one row: the recorded dimension is 1.
\<close>

theorem single_variable_dimension_counterexample:
  "dims_from_values (M_values (example_marginals QR [5 \<mapsto> 3])) [5] = Inr [3]
   \<and> jointMarginalInformation example_collaborators (example_marginals QR [5 \<mapsto> 3]) [5]
       = Inr (JointMarginal \<lparr> rows = 1, columns = [[2]] \<rparr> [1] [5])"
  by (simp add: jointMarginalInformation_def example_marginalInformation) (simp add: example_marginals_def)

text \<open>
  Claim C2. With a recognised factorization, \<open>jointMarginalInformation\<close> on two
  variables asks the Bayes tree for the joint factor graph of the pair under the
  chosen elimination function; on more than two it eliminates the original linear
  graph anew with the requested list as ordering and converts the Bayes tree to a
  factor graph; in both cases it reads the dimensions from the solution-point mapping
  in the order of the request, strips the last row and column of the augmented
  information matrix and wraps the result.
\<close>

theorem joint_dispatch:
  assumes "eliminate_of (M_factorization this) = Some strategy"
      and "\<forall>g. proper (augmentedHessian c g)"
  shows "jointMarginalInformation c this [a, b] = spec_joint_pair c this strategy a b
     \<and> (2 < length variables \<longrightarrow>
          jointMarginalInformation c this variables = spec_joint_many c this strategy variables)"
proof -
  have tail: "(let augmentedInfo = augmentedHessian c fg
          in case topLeftCorner augmentedInfo
                    (int (rows augmentedInfo) - 1) (int (cols augmentedInfo) - 1) of
               Inl e \<Rightarrow> Inl e
             | Inr info \<Rightarrow> Inr (JointMarginal info dims vs))
        = (case spec_strip_last (augmentedHessian c fg) of
             Inl e \<Rightarrow> Inl e
           | Inr info \<Rightarrow> Inr (JointMarginal info dims vs))" for fg dims vs
    using assms(2) by (simp add: strip_last_refines Let_def)
  have pair: "jointFG c this [a, b] = call (joint c (M_bayesTree this) a b strategy)"
    using assms(1) by (auto simp: jointFG_def eliminate_of_def split: if_splits)
  have many: "jointFG c this variables =
        (case call (marginalMultifrontalBayesTree c (M_graph this) variables strategy) of
           Inl e \<Rightarrow> Inl e | Inr bt \<Rightarrow> Inr (asFactorGraph c bt))" if "2 < length variables"
    using assms(1) that by (auto simp: jointFG_def eliminate_of_def split: if_splits)
  have "jointMarginalInformation c this [a, b] = spec_joint_pair c this strategy a b"
    unfolding jointMarginalInformation_def spec_joint_pair_def spec_information_of_graph_def
      pair tail dims_from_values_spec
    by (simp split: sum.splits)
  moreover have "jointMarginalInformation c this variables = spec_joint_many c this strategy variables"
    if "2 < length variables"
    unfolding jointMarginalInformation_def spec_joint_many_def spec_information_of_graph_def
      many [OF that] tail dims_from_values_spec
    using that by (simp split: sum.splits)
  ultimately show ?thesis by blast
qed

theorem joint_dispatch_witness:
  "jointMarginalInformation mixed_collaborators (example_marginals QR mixed_values) [6, 5]
     = Inr (JointMarginal \<lparr> rows = 3, columns = [[2, 0, 0], [0, 2, 0], [0, 0, 2]] \<rparr> [2, 1] [6, 5])
   \<and> jointMarginalInformation mixed_collaborators (example_marginals QR mixed_values) [7, 5, 6]
     = Inr (JointMarginal
              \<lparr> rows = 6,
                columns = [[2, 0, 0, 0, 0, 0], [0, 2, 0, 0, 0, 0], [0, 0, 2, 0, 0, 0],
                           [0, 0, 0, 2, 0, 0], [0, 0, 0, 0, 2, 0], [0, 0, 0, 0, 0, 2]] \<rparr>
              [3, 1, 2] [7, 5, 6])"
proof -
  have h: "\<forall>g. proper (augmentedHessian mixed_collaborators g)" by (simp add: mixed_proper)
  have p: "spec_joint_pair mixed_collaborators (example_marginals QR mixed_values) EliminateQR 6 5
     = Inr (JointMarginal \<lparr> rows = 3, columns = [[2, 0, 0], [0, 2, 0], [0, 0, 2]] \<rparr> [2, 1] [6, 5])"
    by code_simp
  have m: "spec_joint_many mixed_collaborators (example_marginals QR mixed_values) EliminateQR [7, 5, 6]
     = Inr (JointMarginal
              \<lparr> rows = 6,
                columns = [[2, 0, 0, 0, 0, 0], [0, 2, 0, 0, 0, 0], [0, 0, 2, 0, 0, 0],
                           [0, 0, 0, 2, 0, 0], [0, 0, 0, 0, 2, 0], [0, 0, 0, 0, 0, 2]] \<rparr>
              [3, 1, 2] [7, 5, 6])"
    by code_simp
  show ?thesis
    using joint_dispatch [OF example_strategy h, of mixed_values 6 5 "[7, 5, 6]"] p m by simp
qed

text \<open>
  Claim C6, as the code has it. The covariance queries contain no check of the
  information matrix: whenever the information query returns a matrix, whichever it
  is, the covariance query returns what the inverse of the matrix library gives for
  it; a covariance query fails exactly when its information query fails, and with the
  same error.
\<close>

theorem covariance_no_singularity_check:
  "(\<forall>info. marginalInformation c this v = Inr info \<longrightarrow>
        marginalCovariance c this v = Inr (inverse_matrix c info))
   \<and> (\<forall>e. marginalCovariance c this v = Inl e \<longleftrightarrow> marginalInformation c this v = Inl e)
   \<and> (\<forall>jm. jointMarginalInformation c this variables = Inr jm \<longrightarrow>
        (\<exists>r. jointMarginalCovariance c this variables = Inr r
            \<and> JM_fullMatrix r = inverse_matrix c (JM_fullMatrix jm)))
   \<and> (\<forall>e. jointMarginalCovariance c this variables = Inl e
          \<longleftrightarrow> jointMarginalInformation c this variables = Inl e)"
  by (auto simp: marginalCovariance_def jointMarginalCovariance_def split: sum.splits)

theorem covariance_no_singularity_check_witness:
  "marginalCovariance singular_collaborators (example_marginals CHOLESKY example_values) 5
     = Inr (inverse_matrix singular_collaborators \<lparr> rows = 1, columns = [[0]] \<rparr>)"
  using covariance_no_singularity_check [of singular_collaborators "example_marginals CHOLESKY example_values" 5]
        singular_collaborators_information [of example_values]
  by simp

text \<open>
  Claim C6 as it is worded has the inversion of a singular information matrix raised
  as an error. In the example the information matrix is the \<open>1 \<times> 1\<close> zero matrix and
  both covariance queries return a result.
\<close>

theorem singular_information_counterexample:
  "marginalInformation singular_collaborators (example_marginals CHOLESKY example_values) 5
     = Inr \<lparr> rows = 1, columns = [[0]] \<rparr>
   \<and> marginalCovariance singular_collaborators (example_marginals CHOLESKY example_values) 5
     = Inr (inverse_matrix singular_collaborators \<lparr> rows = 1, columns = [[0]] \<rparr>)
   \<and> jointMarginalCovariance singular_collaborators (example_marginals CHOLESKY example_values) [5]
     = Inr (JointMarginal (inverse_matrix singular_collaborators \<lparr> rows = 1, columns = [[0]] \<rparr>)
              [1] [5])"
  by (simp add: marginalCovariance_def jointMarginalCovariance_def jointMarginalInformation_def
        singular_collaborators_information JointMarginal_def)

text \<open>
  Claim C7. When \<open>marginalInformation\<close> returns \<open>info\<close> for \<open>v\<close> and the inverse of
  \<open>info\<close> is a square matrix of the size of \<open>info\<close>, \<open>marginalCovariance\<close> of \<open>v\<close> is
  that inverse, and so is the block \<open>At v v\<close> of \<open>jointMarginalCovariance\<close> of \<open>[v]\<close>.
\<close>

theorem single_variable_round_trip:
  assumes "marginalInformation c this v = Inr info"
      and "square (inverse_matrix c info)"
      and "rows (inverse_matrix c info) = rows info"
  shows "marginalCovariance c this v = Inr (inverse_matrix c info)
     \<and> (\<exists>jm. jointMarginalCovariance c this [v] = Inr jm
           \<and> At jm v v = Inr (inverse_matrix c info))"
proof -
  have "jointMarginalCovariance c this [v]
          = Inr (JointMarginal (inverse_matrix c info) [rows info] [v])"
    using assms(1)
    by (simp add: jointMarginalCovariance_def jointMarginalInformation_def JointMarginal_def)
  moreover have "At (JointMarginal (inverse_matrix c info) [rows info] [v]) v v
          = Inr (inverse_matrix c info)"
    using subMatrix_whole [OF assms(2,3)] by (simp add: At_def JointMarginal_def)
  moreover have "marginalCovariance c this v = Inr (inverse_matrix c info)"
    using assms(1) by (simp add: marginalCovariance_def)
  ultimately show ?thesis by simp
qed

theorem single_variable_round_trip_witness:
  "marginalCovariance example_collaborators (example_marginals CHOLESKY example_values) 6 = Inr \<lparr> rows = 1, columns = [[1 / 2]] \<rparr>
   \<and> (\<exists>jm. jointMarginalCovariance example_collaborators (example_marginals CHOLESKY example_values) [6] = Inr jm
          \<and> At jm 6 6 = Inr \<lparr> rows = 1, columns = [[1 / 2]] \<rparr>)"
proof -
  have i: "inverse_matrix example_collaborators \<lparr> rows = 1, columns = [[2]] \<rparr> = \<lparr> rows = 1, columns = [[1 / 2]] \<rparr>"
    by (simp add: example_collaborators_def reciprocal_def inverse_eq_divide)
  have s: "square (inverse_matrix example_collaborators \<lparr> rows = 1, columns = [[2]] \<rparr>)"
    unfolding i by (simp add: square_def proper_def cols_def)
  have r: "rows (inverse_matrix example_collaborators \<lparr> rows = 1, columns = [[2]] \<rparr>) = rows \<lparr> rows = 1, columns = [[2::real]] \<rparr>"
    unfolding i by simp
  show ?thesis
    using single_variable_round_trip [OF example_information s r, of example_values] unfolding i .
qed

text \<open>
  Claim C8. \<open>jointMarginalCovariance\<close> returns the joint marginal of
  \<open>jointMarginalInformation\<close> with its matrix replaced by the inverse of the whole
  matrix: the keys and the dimensions are unchanged, and the inverse is applied once,
  to the full matrix.
\<close>

theorem covariance_replaces_whole_matrix:
  "(\<forall>jm. jointMarginalInformation c this variables = Inr jm \<longrightarrow>
        jointMarginalCovariance c this variables
          = Inr (jm \<lparr> JM_fullMatrix := inverse_matrix c (JM_fullMatrix jm) \<rparr>))
   \<and> (\<forall>r. jointMarginalCovariance c this variables = Inr r \<longrightarrow>
        (\<exists>jm. jointMarginalInformation c this variables = Inr jm
             \<and> JM_keys r = JM_keys jm \<and> JM_dims r = JM_dims jm
             \<and> JM_fullMatrix r = inverse_matrix c (JM_fullMatrix jm)))"
  by (auto simp: jointMarginalCovariance_def split: sum.splits)

theorem covariance_replaces_whole_matrix_witness:
  "jointMarginalCovariance example_collaborators (example_marginals QR example_values) [6, 5]
     = Inr (JointMarginal \<lparr> rows = 2, columns = [[1 / 2, 0], [0, 1 / 2]] \<rparr> [1, 1] [6, 5])"
proof -
  have i: "inverse_matrix example_collaborators \<lparr> rows = 2, columns = [[2, 0], [0, 2]] \<rparr>
             = \<lparr> rows = 2, columns = [[1 / 2, 0], [0, 1 / 2]] \<rparr>"
    by (simp add: example_collaborators_def reciprocal_def inverse_eq_divide)
  show ?thesis
    using covariance_replaces_whole_matrix [of example_collaborators "example_marginals QR example_values" "[6, 5]"]
    by (simp add: example_pair_information JointMarginal_def i)
qed




text \<open>
  Claim C10. \<open>marginalInformation\<close> never dereferences a null pointer when the
  factorization is \<open>CHOLESKY\<close> or \<open>QR\<close>, and always does for any other value; for such
  a value the constructor, when linearisation succeeds, leaves the Bayes tree as it
  was default-constructed.
\<close>

theorem null_factor_pointer:
  "(M_factorization this = CHOLESKY \<or> M_factorization this = QR \<longrightarrow>
       marginalInformation c this v \<noteq> Inl NullPointerDereference)
   \<and> (M_factorization this \<noteq> CHOLESKY \<and> M_factorization this \<noteq> QR \<longrightarrow>
       marginalInformation c this v = Inl NullPointerDereference)
   \<and> (factorization \<noteq> CHOLESKY \<and> factorization \<noteq> QR \<longrightarrow>
       (\<forall>g. linearize c graph solution = Inr g \<longrightarrow>
          Marginals c graph solution factorization
            = Inr \<lparr> M_graph = g, M_values = solution, M_factorization = factorization,
                    M_bayesTree = emptyBayesTree c \<rparr>))"
proof (intro conjI impI allI)
  assume "M_factorization this = CHOLESKY \<or> M_factorization this = QR"
  then show "marginalInformation c this v \<noteq> Inl NullPointerDereference"
    using call_not_null [of "marginalFactor c (M_bayesTree this) v EliminatePreferCholesky"]
          call_not_null [of "marginalFactor c (M_bayesTree this) v EliminateQR"]
    by (auto simp: marginalInformation_def marginalFactor_pointer_def split: sum.splits option.splits)
next
  assume "M_factorization this \<noteq> CHOLESKY \<and> M_factorization this \<noteq> QR"
  then show "marginalInformation c this v = Inl NullPointerDereference"
    by (simp add: marginalInformation_def marginalFactor_pointer_def)
next
  fix g
  assume "factorization \<noteq> CHOLESKY \<and> factorization \<noteq> QR" "linearize c graph solution = Inr g"
  then show "Marginals c graph solution factorization
            = Inr \<lparr> M_graph = g, M_values = solution, M_factorization = factorization,
                    M_bayesTree = emptyBayesTree c \<rparr>"
    by (simp add: Marginals_def)
qed

theorem null_factor_pointer_witness:
  "marginalInformation example_collaborators (example_marginals 2 example_values) 5 = Inl NullPointerDereference
   \<and> marginalInformation example_collaborators (example_marginals QR example_values) 5 \<noteq> Inl NullPointerDereference
   \<and> Marginals example_collaborators () example_values 2
       = Inr \<lparr> M_graph = [5, 6, 7], M_values = example_values, M_factorization = 2, M_bayesTree = [] \<rparr>"
proof -
  have f: "M_factorization (example_marginals 2 example_values) \<noteq> CHOLESKY
           \<and> M_factorization (example_marginals 2 example_values) \<noteq> QR"
    by (simp add: example_marginals_def CHOLESKY_def QR_def)
  have q: "M_factorization (example_marginals QR example_values) = CHOLESKY
           \<or> M_factorization (example_marginals QR example_values) = QR"
    by (simp add: example_marginals_def)
  have n: "(2::int) \<noteq> CHOLESKY \<and> 2 \<noteq> QR" by (simp add: CHOLESKY_def QR_def)
  have l: "linearize example_collaborators () example_values = Inr [5, 6, 7]" by (simp add: example_collaborators_def)
  have e: "emptyBayesTree example_collaborators = []" by (simp add: example_collaborators_def)
  show ?thesis
    using null_factor_pointer [of "example_marginals 2 example_values" example_collaborators 5 2 "()" example_values]
          null_factor_pointer [of "example_marginals QR example_values" example_collaborators 5 2 "()" example_values]
          f q n l e
    by simp
qed

end
